theory Spec2Isabelle
  imports
    Complex_Main
    "HOL-Library.Char_ord"
    "HOL-Library.List_Lexorder"
    "HOL-Library.Product_Lexorder"
    "HOL-Library.Multiset"
begin

section \<open>The radiomics tutorial notebook (ML/ml-tutorial.ipynb)\<close>

text \<open>
  The notebook is a sequence of cells run top to bottom in one Python session. Each code
  cell reads and binds names of the session's global namespace. The embedding keeps that
  namespace and the image files on disk as an explicit state, Python exceptions as values
  of a sum type, and Python numbers as reals (floating-point rounding is not modelled).
\<close>

subsection \<open>Values, errors and the session state\<close>

datatype error =
  NameError string | ValueError string | KeyError | ZeroDivisionError | RuntimeError
  | AttributeError

text \<open>
  A SimpleITK image: its spatial information (size, spacing, origin, direction) and its
  voxel buffer. A numpy array: its shape and its flat buffer.
\<close>

record image =
  img_size :: "nat list"
  img_spacing :: "real list"
  img_origin :: "real list"
  img_direction :: "real list"
  img_voxels :: "real list"

record ndarray =
  arr_shape :: "nat list"
  arr_data :: "real list"

text \<open>
  A fitted scikit-learn classifier, as far as the notebook uses it: its attribute
  \<open>classes_\<close> and its decision for one sample (\<open>predict\<close> decides row by row).
\<close>

record classifier =
  clf_classes :: "int list"
  clf_predict_row :: "real list \<Rightarrow> int"

text \<open>
  The values a global name can hold: a string, a number, an image, a float array, an
  integer array, a classifier, or any other object (modules, frames, figures).
\<close>

datatype pyval =
  PStr string | PNum real | PImage image | PArray ndarray | PObj
  | PInts "int list" | PClf classifier

record world =
  globals :: "string \<rightharpoonup> pyval"
  files :: "string \<rightharpoonup> image"

text \<open>
  Reading a name inside a function body: the function's local names first, then the
  global namespace; a name bound in neither raises \<open>NameError\<close>. (The built-in
  namespace holds neither of the two names read below.)
\<close>

definition load_name :: "(string \<rightharpoonup> pyval) \<Rightarrow> (string \<rightharpoonup> pyval) \<Rightarrow> string \<Rightarrow> error + pyval" where
  "load_name locals globs n =
     (case locals n of
        Some v \<Rightarrow> Inr v
      | None \<Rightarrow> (case globs n of Some v \<Rightarrow> Inr v | None \<Rightarrow> Inl (NameError n)))"

subsection \<open>Exercise 1: \<open>load_img_norm\<close> as the notebook defines it\<close>

text \<open>
  \<^verbatim>\<open>
  def load_img_norm(image_dir, threshold=0):
    ### START CODE HERE ###

    ### END CODE HERE ###
    return normalized_sitk, normalized_np
  \<close>
  The body between the two markers is empty. The only statement is the \<open>return\<close>, which
  builds a pair from two names, read left to right. The function binds only its two
  parameters, reads no file and assigns nothing, so the state is returned as it came.
\<close>

definition load_img_norm :: "world \<Rightarrow> string \<Rightarrow> real \<Rightarrow> (error + pyval \<times> pyval) \<times> world" where
  "load_img_norm w image_dir threshold =
     (let locals = [''image_dir'' \<mapsto> PStr image_dir, ''threshold'' \<mapsto> PNum threshold]
      in ((case load_name locals (globals w) ''normalized_sitk'' of
             Inl e \<Rightarrow> Inl e
           | Inr normalized_sitk \<Rightarrow>
               (case load_name locals (globals w) ''normalized_np'' of
                  Inl e \<Rightarrow> Inl e
                | Inr normalized_np \<Rightarrow> Inr (normalized_sitk, normalized_np))),
          w))"

text \<open>
  Every name that a cell of the notebook binds at top level (imports, assignments, loop
  variables and the one \<open>def\<close>), in cell order.
\<close>

definition notebook_names :: "string list" where
  "notebook_names =
     [''glob'', ''pd'', ''sns'', ''sitk'', ''plt'', ''featureextractor'',
      ''t1_file_list'', ''t2_file_list'', ''t1ce_file_list'', ''flair_file_list'',
      ''seg_file_list'', ''database'',
      ''IDX'', ''img_sitk'', ''img_np'', ''seg_sitk'', ''seg_np'',
      ''SLIDE'', ''fig'', ''axes'', ''i'',
      ''t1_np'', ''t2_np'', ''t1ce_np'', ''flair_np'', ''all_images'', ''k'', ''img'',
      ''colormap'',
      ''load_img_norm'',
      ''data'', ''d'',
      ''train_test_split'', ''x_data'', ''y_data'', ''x_train'', ''x_test'', ''y_train'',
      ''y_test'',
      ''accuracy_train'', ''probs'', ''accuracy_test'',
      ''confusion_matrix'', ''ConfusionMatrixDisplay'', ''predictions'', ''cm'', ''disp'']"

text \<open>A session of the notebook as shipped binds no other global name.\<close>

definition shipped :: "world \<Rightarrow> bool" where
  "shipped w = (dom (globals w) \<subseteq> set notebook_names)"

subsection \<open>A concrete session\<close>

definition img0 :: image where
  "img0 = \<lparr>img_size = [3, 1, 1], img_spacing = [1, 1, 1], img_origin = [0, 0, 0],
           img_direction = [1, 0, 0, 0, 1, 0, 0, 0, 1], img_voxels = [0, 1, 3]\<rparr>"

definition path0 :: string where
  "path0 = ''data/mri/HGG/p1/p1_t1.nii.gz''"

definition w0 :: world where
  "w0 = \<lparr>globals = [''sitk'' \<mapsto> PObj, ''database'' \<mapsto> PObj, ''IDX'' \<mapsto> PNum 10,
                     ''load_img_norm'' \<mapsto> PObj],
         files = [path0 \<mapsto> img0]\<rparr>"

subsection \<open>The normalisation the notebook documents (Part II)\<close>

text \<open>
  The markdown of Part II states the formula the exercise is about:
  \<open>I_z = (I - \<mu>_I) / \<sigma>_I\<close>, with \<open>\<mu>_I\<close> and \<open>\<sigma>_I\<close> computed only over the pixels of
  \<open>I\<close> above a threshold. The definitions below follow that text, not the code: the code of
  \<open>load_img_norm\<close> above contains none of it. They are the reference the code is compared
  with. A mean over no voxel and a division by a zero \<open>\<sigma>_I\<close> are made explicit as
  \<open>ZeroDivisionError\<close> (HOL's own \<open>x / 0\<close> is \<open>0\<close>).
\<close>

definition above :: "real \<Rightarrow> real list \<Rightarrow> real list" where
  "above threshold vs = filter (\<lambda>v. threshold < v) vs"

definition mu_I :: "real list \<Rightarrow> real option" where
  "mu_I xs = (if xs = [] then None else Some (sum_list xs / real (length xs)))"

definition sigma_I :: "real list \<Rightarrow> real option" where
  "sigma_I xs =
     (case mu_I xs of
        None \<Rightarrow> None
      | Some m \<Rightarrow> Some (sqrt (sum_list (map (\<lambda>x. (x - m)\<^sup>2) xs) / real (length xs))))"

definition I_z :: "real \<Rightarrow> real list \<Rightarrow> error + real list" where
  "I_z threshold vs =
     (case mu_I (above threshold vs) of
        None \<Rightarrow> Inl ZeroDivisionError
      | Some m \<Rightarrow>
          (case sigma_I (above threshold vs) of
             None \<Rightarrow> Inl ZeroDivisionError
           | Some s \<Rightarrow>
               if s = 0 then Inl ZeroDivisionError
               else Inr (map (\<lambda>v. (v - m) / s) vs)))"

text \<open>
  What Exercise 1 asks the student to write: load the image, normalise its voxels, and
  return a SimpleITK object carrying the loaded image's information (the hinted
  \<open>CopyInformation\<close>) together with the numpy array (whose shape is the image size
  reversed).
\<close>

definition load_img_norm_asked :: "world \<Rightarrow> string \<Rightarrow> real \<Rightarrow> error + pyval \<times> pyval" where
  "load_img_norm_asked w image_dir threshold =
     (case files w image_dir of
        None \<Rightarrow> Inl RuntimeError
      | Some img \<Rightarrow>
          (case I_z threshold (img_voxels img) of
             Inl e \<Rightarrow> Inl e
           | Inr zs \<Rightarrow>
               Inr (PImage (img\<lparr>img_voxels := zs\<rparr>),
                    PArray \<lparr>arr_shape = rev (img_size img), arr_data = zs\<rparr>)))"

text \<open>Postconditions used to state what a call returns.\<close>

definition same_information :: "image \<Rightarrow> image \<Rightarrow> bool" where
  "same_information a b =
     (img_size a = img_size b \<and> img_spacing a = img_spacing b
      \<and> img_origin a = img_origin b \<and> img_direction a = img_direction b)"

definition returns_image_like :: "error + pyval \<times> pyval \<Rightarrow> image \<Rightarrow> bool" where
  "returns_image_like res img =
     (case res of
        Inr (PImage a, _) \<Rightarrow> same_information a img
      | _ \<Rightarrow> False)"

definition selected :: "real \<Rightarrow> real list \<Rightarrow> real list \<Rightarrow> real list" where
  "selected threshold vs zs = map snd (filter (\<lambda>(v, z). threshold < v) (zip vs zs))"

definition returns_standardised :: "error + pyval \<times> pyval \<Rightarrow> real \<Rightarrow> real list \<Rightarrow> bool" where
  "returns_standardised res threshold vs =
     (case res of
        Inr (_, PArray a) \<Rightarrow>
          mu_I (selected threshold vs (arr_data a)) = Some 0
          \<and> sigma_I (selected threshold vs (arr_data a)) = Some 1
      | _ \<Rightarrow> False)"

text \<open>
  A session in which the two names the \<open>return\<close> reads have been bound by hand, to an
  image and an array that have nothing to do with the file.
\<close>

definition img2 :: image where
  "img2 = \<lparr>img_size = [3, 1, 1], img_spacing = [2, 2, 2], img_origin = [5, 5, 5],
           img_direction = [1, 0, 0, 0, 1, 0, 0, 0, 1], img_voxels = [7, 8, 9]\<rparr>"

definition w2 :: world where
  "w2 = \<lparr>globals = [''normalized_sitk'' \<mapsto> PImage img2,
                     ''normalized_np'' \<mapsto> PArray \<lparr>arr_shape = [1, 1, 3], arr_data = [7, 8, 9]\<rparr>],
         files = [path0 \<mapsto> img0]\<rparr>"

text \<open>A second session: the same global names, another volume in the file.\<close>

definition w1 :: world where
  "w1 = \<lparr>globals = [''sitk'' \<mapsto> PObj, ''database'' \<mapsto> PObj, ''IDX'' \<mapsto> PNum 10,
                     ''load_img_norm'' \<mapsto> PObj],
         files = [path0 \<mapsto> img0\<lparr>img_voxels := [4, 4, 9]\<rparr>]\<rparr>"

section \<open>Part I: the dataset index (cell 4)\<close>

text \<open>
  \<^verbatim>\<open>
  t1_file_list = sorted(glob.glob('data/mri/**/**/*_t1.nii.gz'))
  ... (t2, t1ce, flair, seg alike)
  database = pd.DataFrame({'T1': t1_file_list, 'T2': t2_file_list, 'T1ce': t1ce_file_list,
                           'FLAIR': flair_file_list, 'Seg': seg_file_list})
  \<close>
  The five results of \<open>glob.glob\<close> (what the file system holds, in any order) are the
  inputs. \<open>sorted\<close> orders strings by code point, which is the lexicographic order of
  \<open>string\<close>. Two library behaviours are taken as pandas documents them: the \<open>DataFrame\<close>
  constructor applied to a dict of lists keeps each list as a column and raises
  \<open>ValueError\<close> when the lists differ in length; \<open>.at[i, col]\<close> reads row \<open>i\<close> of column
  \<open>col\<close>.
\<close>

type_synonym 'a frame = "(string \<times> 'a list) list"

definition pd_DataFrame :: "(string \<times> 'a list) list \<Rightarrow> error + 'a frame" where
  "pd_DataFrame columns =
     (case columns of
        [] \<Rightarrow> Inr []
      | c # cs \<Rightarrow>
          if list_all (\<lambda>d. length (snd d) = length (snd c)) cs then Inr columns
          else Inl (ValueError ''All arrays must be of the same length''))"

definition at_df :: "'a frame \<Rightarrow> nat \<Rightarrow> string \<Rightarrow> error + 'a" where
  "at_df df i col =
     (case map_of df col of
        None \<Rightarrow> Inl KeyError
      | Some xs \<Rightarrow> if i < length xs then Inr (xs ! i) else Inl KeyError)"

definition database ::
  "string list \<Rightarrow> string list \<Rightarrow> string list \<Rightarrow> string list \<Rightarrow> string list \<Rightarrow> error + string frame" where
  "database t1_glob t2_glob t1ce_glob flair_glob seg_glob =
     (let t1_file_list = sort t1_glob;
          t2_file_list = sort t2_glob;
          t1ce_file_list = sort t1ce_glob;
          flair_file_list = sort flair_glob;
          seg_file_list = sort seg_glob
      in pd_DataFrame
           [(''T1'', t1_file_list), (''T2'', t2_file_list), (''T1ce'', t1ce_file_list),
            (''FLAIR'', flair_file_list), (''Seg'', seg_file_list)])"

text \<open>The condition under which the constructor succeeds.\<close>

definition same_lengths :: "'a list \<Rightarrow> 'a list \<Rightarrow> 'a list \<Rightarrow> 'a list \<Rightarrow> 'a list \<Rightarrow> bool" where
  "same_lengths a b c d e =
     (length a = length b \<and> length b = length c \<and> length c = length d \<and> length d = length e)"

text \<open>
  The directory of a path (the part before its last \<open>/\<close>): in the layout the patterns
  match, \<open>data/mri/<grade>/<patient>/<file>\<close>, it identifies the patient.
\<close>

definition patient_dir :: "string \<Rightarrow> string" where
  "patient_dir p = rev (tl (dropWhile (\<lambda>c. c \<noteq> CHR ''/'') (rev p)))"

text \<open>
  The assumption on the data: \<open>dirs\<close> are the patient directories and the list \<open>fs\<close> of one
  modality holds exactly one file directly in each of them. The patterns match at one
  fixed depth (\<open>**\<close> without \<open>recursive=True\<close> matches one path component), so all
  patient directories have the same number of separators.
\<close>

definition one_file_per_patient :: "string list \<Rightarrow> string list \<Rightarrow> bool" where
  "one_file_per_patient dirs fs =
     (list_all (\<lambda>f. CHR ''/'' \<in> set f) fs \<and> mset (map patient_dir fs) = mset dirs)"

definition same_depth :: "nat \<Rightarrow> string list \<Rightarrow> bool" where
  "same_depth k dirs = list_all (\<lambda>d. count_list d CHR ''/'' = k) dirs"

text \<open>Two patients with one file per modality, listed in some order.\<close>

definition ok_t1 :: "string list" where
  "ok_t1 = [''data/mri/LGG/B/B_t1.nii.gz'', ''data/mri/HGG/A/A_t1.nii.gz'']"

definition ok_t2 :: "string list" where
  "ok_t2 = [''data/mri/HGG/A/A_t2.nii.gz'', ''data/mri/LGG/B/B_t2.nii.gz'']"

definition ok_t1ce :: "string list" where
  "ok_t1ce = [''data/mri/HGG/A/A_t1ce.nii.gz'', ''data/mri/LGG/B/B_t1ce.nii.gz'']"

definition ok_flair :: "string list" where
  "ok_flair = [''data/mri/LGG/B/B_flair.nii.gz'', ''data/mri/HGG/A/A_flair.nii.gz'']"

definition ok_seg :: "string list" where
  "ok_seg = [''data/mri/HGG/A/A_seg.nii.gz'', ''data/mri/LGG/B/B_seg.nii.gz'']"

definition ok_dirs :: "string list" where
  "ok_dirs = [''data/mri/HGG/A'', ''data/mri/LGG/B'']"

text \<open>Patient A has no T2 file and patient B has two: the five lists still have one length.\<close>

definition mixed_t2 :: "string list" where
  "mixed_t2 = [''data/mri/LGG/B/B_t2.nii.gz'', ''data/mri/LGG/B/B2_t2.nii.gz'']"

section \<open>Part V: data preparation (cell 25)\<close>























section \<open>Part VI: the confusion matrix (cell 34)\<close>


















section \<open>Properties of \<open>load_img_norm\<close>\<close>

lemma load_name_param_free:
  "n \<noteq> ''image_dir'' \<Longrightarrow> n \<noteq> ''threshold'' \<Longrightarrow>
   load_name [''image_dir'' \<mapsto> a, ''threshold'' \<mapsto> b] g n =
     (case g n of Some v \<Rightarrow> Inr v | None \<Rightarrow> Inl (NameError n))"
  by (simp add: load_name_def)

lemma normalized_sitk_not_shipped: "''normalized_sitk'' \<notin> set notebook_names"
  by (simp add: notebook_names_def)

lemma shipped_unbound: "shipped w \<Longrightarrow> globals w ''normalized_sitk'' = None"
  using normalized_sitk_not_shipped by (auto simp: shipped_def)

lemma stub_raises: "shipped w \<Longrightarrow>
  fst (load_img_norm w image_dir threshold) = Inl (NameError ''normalized_sitk'')"
  by (simp add: load_img_norm_def load_name_param_free shipped_unbound)

lemma shipped_w0: "shipped w0"
  by (simp add: shipped_def w0_def notebook_names_def)

lemma shipped_w1: "shipped w1"
  by (simp add: shipped_def w1_def notebook_names_def)

lemma load_img_norm_eq:
  "load_img_norm w image_dir threshold =
     ((case globals w ''normalized_sitk'' of
         None \<Rightarrow> Inl (NameError ''normalized_sitk'')
       | Some a \<Rightarrow>
           (case globals w ''normalized_np'' of
              None \<Rightarrow> Inl (NameError ''normalized_np'')
            | Some b \<Rightarrow> Inr (a, b))), w)"
  by (simp add: load_img_norm_def load_name_param_free Let_def split: option.splits)

lemma I_z0: "I_z 0 [0, 1, 3] = Inr [-2, -1, 1]"
  by (simp add: I_z_def above_def mu_I_def sigma_I_def)

lemma asked0: "load_img_norm_asked w0 path0 0 =
    Inr (PImage (img0\<lparr>img_voxels := [-2, -1, 1]\<rparr>),
         PArray \<lparr>arr_shape = [1, 1, 3], arr_data = [-2, -1, 1]\<rparr>)"
  by (simp add: load_img_norm_asked_def w0_def img0_def I_z0)

section \<open>Properties of the documented normalisation\<close>

lemma sum_centered:
  "xs \<noteq> [] \<Longrightarrow> sum_list (map (\<lambda>v. (v - sum_list xs / real (length xs)) / (s::real)) xs) = 0"
proof -
  assume "xs \<noteq> []"
  then have n: "real (length xs) \<noteq> 0" by simp
  have "sum_list (map (\<lambda>v. (v - c) / s) xs) = (sum_list xs - real (length xs) * c) / s" for c
    by (induction xs) (simp_all add: field_simps add_divide_distrib diff_divide_distrib)
  then show ?thesis using n by simp
qed

lemma sum_sq_scaled:
  "sum_list (map (\<lambda>v. ((v - m) / s)\<^sup>2) xs) = sum_list (map (\<lambda>v. (v - m)\<^sup>2) xs) / (s::real)\<^sup>2"
proof (induction xs)
  case Nil show ?case by simp
next
  case (Cons a xs)
  have "((a - m) / s)\<^sup>2 = (a - m)\<^sup>2 / s\<^sup>2" by (rule power_divide)
  then show ?case using Cons by (simp add: add_divide_distrib)
qed

lemma sum_sq_zero_iff:
  "sum_list (map (\<lambda>v. (v - m)\<^sup>2) xs) = 0 \<longleftrightarrow> (\<forall>x\<in>set xs. x = (m::real))"
proof (induction xs)
  case Nil show ?case by simp
next
  case (Cons a xs)
  have nn: "0 \<le> sum_list (map (\<lambda>v. (v - m)\<^sup>2) xs)" by (rule sum_list_nonneg) auto
  have "(a - m)\<^sup>2 + sum_list (map (\<lambda>v. (v - m)\<^sup>2) xs) = 0
        \<longleftrightarrow> (a - m)\<^sup>2 = 0 \<and> sum_list (map (\<lambda>v. (v - m)\<^sup>2) xs) = 0"
    using nn by (simp add: add_nonneg_eq_0_iff)
  then show ?case using Cons by auto
qed

lemma all_eq_mean:
  "xs \<noteq> [] \<Longrightarrow> \<forall>x\<in>set xs. x = c \<Longrightarrow> sum_list xs / real (length xs) = (c::real)"
proof -
  assume a: "xs \<noteq> []" "\<forall>x\<in>set xs. x = c"
  have "sum_list xs = real (length xs) * c" using a(2)
    by (induction xs) (simp_all add: field_simps)
  then show ?thesis using a(1) by simp
qed

lemma remdups_le1: "length (remdups xs) \<le> 1 \<longleftrightarrow> (\<forall>x\<in>set xs. \<forall>y\<in>set xs. x = y)"
  by (simp add: length_remdups_card_conv card_le_Suc0_iff_eq)

lemma constant_iff_all_mean:
  assumes "xs \<noteq> []"
  shows "length (remdups xs) \<le> 1 \<longleftrightarrow> (\<forall>x\<in>set xs. x = sum_list xs / real (length xs))"
proof
  assume "length (remdups xs) \<le> 1"
  then have eq: "\<forall>x\<in>set xs. \<forall>y\<in>set xs. x = y" by (simp only: remdups_le1)
  from assms have "hd xs \<in> set xs" by simp
  with eq have "\<forall>x\<in>set xs. x = hd xs" by blast
  with assms have "sum_list xs / real (length xs) = hd xs" by (rule all_eq_mean)
  with \<open>\<forall>x\<in>set xs. x = hd xs\<close> show "\<forall>x\<in>set xs. x = sum_list xs / real (length xs)" by simp
next
  assume "\<forall>x\<in>set xs. x = sum_list xs / real (length xs)"
  then have "\<forall>x\<in>set xs. \<forall>y\<in>set xs. x = y" by metis
  then show "length (remdups xs) \<le> 1" by (simp only: remdups_le1)
qed

lemma I_z_fails_iff:
  "I_z threshold vs = Inl ZeroDivisionError \<longleftrightarrow> length (remdups (above threshold vs)) \<le> 1"
proof (cases "above threshold vs = []")
  case True
  then show ?thesis by (simp add: I_z_def mu_I_def)
next
  case False
  then have n: "real (length (above threshold vs)) \<noteq> 0" by simp
  have "I_z threshold vs = Inl ZeroDivisionError
        \<longleftrightarrow> sum_list (map (\<lambda>x. (x - sum_list (above threshold vs) / real (length (above threshold vs)))\<^sup>2)
               (above threshold vs)) = 0"
    using False n by (simp add: I_z_def mu_I_def sigma_I_def)
  also have "\<dots> \<longleftrightarrow> (\<forall>x\<in>set (above threshold vs).
                 x = sum_list (above threshold vs) / real (length (above threshold vs)))"
    by (rule sum_sq_zero_iff)
  also have "\<dots> \<longleftrightarrow> length (remdups (above threshold vs)) \<le> 1"
    using constant_iff_all_mean [OF False] by simp
  finally show ?thesis .
qed

lemma I_z_cases: "I_z threshold vs = Inl ZeroDivisionError \<or> (\<exists>zs. I_z threshold vs = Inr zs \<and> length zs = length vs)"
  by (auto simp: I_z_def split: option.splits)

lemma selected_map: "selected threshold vs (map f vs) = map f (above threshold vs)"
  by (induction vs) (simp_all add: selected_def above_def)

lemma standardised:
  assumes "xs \<noteq> []"
    and m: "m = sum_list xs / real (length xs)"
    and s: "s = sqrt (sum_list (map (\<lambda>x. (x - m)\<^sup>2) xs) / real (length xs))"
    and "s \<noteq> 0"
  shows "mu_I (map (\<lambda>v. (v - m) / s) xs) = Some 0"
    and "sigma_I (map (\<lambda>v. (v - m) / s) xs) = Some 1"
proof -
  have n: "real (length xs) > 0" using assms(1) by simp
  have c: "sum_list (map (\<lambda>v. (v - m) / s) xs) = 0"
    unfolding m using assms(1) by (rule sum_centered)
  show mu: "mu_I (map (\<lambda>v. (v - m) / s) xs) = Some 0"
    using assms(1) c by (simp add: mu_I_def o_def)
  have nn: "0 \<le> sum_list (map (\<lambda>x. (x - m)\<^sup>2) xs)" by (rule sum_list_nonneg) auto
  then have "0 \<le> sum_list (map (\<lambda>x. (x - m)\<^sup>2) xs) / real (length xs)" using n by simp
  then have s2: "s\<^sup>2 = sum_list (map (\<lambda>x. (x - m)\<^sup>2) xs) / real (length xs)"
    unfolding s by simp
  define zs where "zs = map (\<lambda>v. (v - m) / s) xs"
  have len: "length zs = length xs" by (simp add: zs_def)
  have "sum_list (map (\<lambda>z. z\<^sup>2) zs) / real (length zs)
        = (sum_list (map (\<lambda>v. (v - m)\<^sup>2) xs) / s\<^sup>2) / real (length xs)"
    by (simp add: zs_def o_def sum_sq_scaled)
  also have "\<dots> = s\<^sup>2 / s\<^sup>2" by (simp add: s2)
  also have "\<dots> = 1" using \<open>s \<noteq> 0\<close> by simp
  finally have v: "sum_list (map (\<lambda>z. z\<^sup>2) zs) / real (length zs) = 1" .
  have "mu_I zs = Some 0" using mu by (simp add: zs_def)
  then have "sigma_I zs = Some (sqrt (sum_list (map (\<lambda>z. z\<^sup>2) zs) / real (length zs)))"
    by (simp add: sigma_I_def)
  then have "sigma_I zs = Some 1" by (simp only: v real_sqrt_one)
  then show "sigma_I (map (\<lambda>v. (v - m) / s) xs) = Some 1" by (simp add: zs_def)
qed

lemma I_z_standardises:
  assumes "I_z threshold vs = Inr zs"
  shows "mu_I (selected threshold vs zs) = Some 0 \<and> sigma_I (selected threshold vs zs) = Some 1"
proof -
  let ?xs = "above threshold vs"
  let ?m = "sum_list ?xs / real (length ?xs)"
  let ?s = "sqrt (sum_list (map (\<lambda>x. (x - ?m)\<^sup>2) ?xs) / real (length ?xs))"
  from assms have ne: "?xs \<noteq> []"
    by (auto simp: I_z_def mu_I_def split: option.splits if_splits)
  from assms ne have s0: "?s \<noteq> 0" and zs: "zs = map (\<lambda>v. (v - ?m) / ?s) vs"
    by (auto simp: I_z_def mu_I_def sigma_I_def split: if_splits)
  have sel: "selected threshold vs zs = map (\<lambda>v. (v - ?m) / ?s) ?xs"
    unfolding zs by (rule selected_map)
  show ?thesis unfolding sel
    using standardised [OF ne refl refl s0] by simp
qed

section \<open>Properties of the dataset index\<close>

lemma order_by_dir:
  "count_list d CHR ''/'' = count_list d' CHR ''/'' \<Longrightarrow> d \<noteq> d' \<Longrightarrow>
   (d @ CHR ''/'' # n < d' @ CHR ''/'' # n') \<longleftrightarrow> (d @ ''/'' < d' @ ''/'')"
proof (induction d arbitrary: d')
  case Nil
  then show ?case by (cases d') (auto split: if_splits)
next
  case (Cons x xs)
  show ?case
  proof (cases d')
    case Nil
    with Cons.prems show ?thesis by (auto split: if_splits)
  next
    case (Cons y ys)
    with Cons.prems Cons.IH [of ys] show ?thesis by (auto split: if_splits)
  qed
qed

lemma path_split:
  "CHR ''/'' \<in> set f \<Longrightarrow> \<exists>n. f = patient_dir f @ CHR ''/'' # n"
proof -
  assume a: "CHR ''/'' \<in> set f"
  let ?r = "dropWhile (\<lambda>c. c \<noteq> CHR ''/'') (rev f)"
  have ne: "?r \<noteq> []" using a by simp
  then have hd: "hd ?r = CHR ''/''" using hd_dropWhile [of "\<lambda>c. c \<noteq> CHR ''/''" "rev f"] by simp
  have "rev f = takeWhile (\<lambda>c. c \<noteq> CHR ''/'') (rev f) @ ?r" by simp
  also have "?r = CHR ''/'' # tl ?r" using ne hd by (cases ?r) auto
  finally have "rev (rev f) = rev (takeWhile (\<lambda>c. c \<noteq> CHR ''/'') (rev f) @ CHR ''/'' # tl ?r)" by simp
  then have "f = rev (tl ?r) @ CHR ''/'' # rev (takeWhile (\<lambda>c. c \<noteq> CHR ''/'') (rev f))" by simp
  then show ?thesis unfolding patient_dir_def by blast
qed

lemma database_ok_iff:
  "(\<exists>df. database a b c d e = Inr df) \<longleftrightarrow>
   length a = length b \<and> length b = length c \<and> length c = length d \<and> length d = length e"
  by (auto simp: database_def pd_DataFrame_def)

lemma database_rows:
  assumes "database a b c d e = Inr df" and "i < length a"
  shows "at_df df i ''T1'' = Inr (sort a ! i) \<and> at_df df i ''T2'' = Inr (sort b ! i)
       \<and> at_df df i ''T1ce'' = Inr (sort c ! i) \<and> at_df df i ''FLAIR'' = Inr (sort d ! i)
       \<and> at_df df i ''Seg'' = Inr (sort e ! i)"
  using assms by (auto simp: database_def pd_DataFrame_def at_df_def split: if_splits)

lemma filter_eq_distinct:
  "distinct xs \<Longrightarrow> k \<in> set xs \<Longrightarrow> filter (\<lambda>x. P k = P x) xs = [k]" if "inj P"
proof (induction xs)
  case Nil then show ?case by simp
next
  case (Cons a xs)
  have "\<And>x. P k = P x \<longleftrightarrow> k = x" using that by (auto dest: injD)
  then show ?case using Cons by (auto simp: filter_empty_conv)
qed

lemma sorted_dirs:
  assumes dist: "distinct dirs" and depth: "same_depth k dirs" and one: "one_file_per_patient dirs fs"
  shows "map patient_dir (sort fs) = sort_key (\<lambda>d. d @ ''/'') dirs"
proof -
  let ?key = "\<lambda>d. d @ ''/''"
  let ?ys = "map patient_dir (sort fs)"
  have ms: "mset ?ys = mset dirs"
  proof -
    have "mset ?ys = image_mset patient_dir (mset (sort fs))" by simp
    also have "\<dots> = mset (map patient_dir fs)" by simp
    finally show ?thesis using one by (simp add: one_file_per_patient_def)
  qed
  then have set_ys: "set ?ys = set dirs" by (rule mset_eq_setD)
  have dist_ys: "distinct ?ys" using ms dist by (metis mset_eq_imp_distinct_iff)
  have inj: "inj ?key" by (simp add: inj_def)
  have slash: "\<And>f. f \<in> set fs \<Longrightarrow> CHR ''/'' \<in> set f"
    using one by (simp add: one_file_per_patient_def list_all_iff)
  have dir_in: "\<And>f. f \<in> set fs \<Longrightarrow> patient_dir f \<in> set dirs"
    using set_ys by auto
  have dep: "\<And>f. f \<in> set fs \<Longrightarrow> count_list (patient_dir f) CHR ''/'' = k"
    using dir_in depth by (simp add: same_depth_def list_all_iff)
  have mono: "?key (patient_dir f) \<le> ?key (patient_dir g)"
    if f: "f \<in> set (sort fs)" and g: "g \<in> set (sort fs)" and le: "f \<le> g" for f g
  proof (cases "patient_dir f = patient_dir g")
    case True then show ?thesis by simp
  next
    case False
    from f g have fs: "f \<in> set fs" "g \<in> set fs" by simp_all
    obtain n where nf: "f = patient_dir f @ CHR ''/'' # n" using path_split [OF slash [OF fs(1)]] ..
    obtain m where ng: "g = patient_dir g @ CHR ''/'' # m" using path_split [OF slash [OF fs(2)]] ..
    have cnt: "count_list (patient_dir f) CHR ''/'' = count_list (patient_dir g) CHR ''/''"
      using dep fs by simp
    from False have "f \<noteq> g" by auto
    with le have "f < g" by simp
    then have "patient_dir f @ CHR ''/'' # n < patient_dir g @ CHR ''/'' # m" using nf ng by simp
    then have "?key (patient_dir f) < ?key (patient_dir g)"
      using order_by_dir [OF cnt False, of n m] by blast
    then show ?thesis by (rule less_imp_le)
  qed
  have "sorted (sort fs)" by simp
  then have "sorted_wrt (\<lambda>f g. ?key (patient_dir f) \<le> ?key (patient_dir g)) (sort fs)"
    using mono by (rule_tac sorted_wrt_mono_rel [where P = "(\<le>)"]) auto
  then have srt: "sorted (map ?key ?ys)" by (simp add: sorted_wrt_map)
  show ?thesis
  proof (rule sym, rule properties_for_sort_key [OF ms _ srt])
    fix d assume "d \<in> set ?ys"
    then have d1: "d \<in> set ?ys" and d2: "d \<in> set dirs" using set_ys by auto
    show "filter (\<lambda>x. ?key d = ?key x) ?ys = filter (\<lambda>x. ?key d = ?key x) dirs"
      using filter_eq_distinct [OF inj dist_ys d1] filter_eq_distinct [OF inj dist d2] by simp
  qed
qed

lemma row_one_patient:
  assumes "distinct dirs" "same_depth k dirs" "one_file_per_patient dirs fs" "i < length dirs"
  shows "patient_dir (sort fs ! i) = sort_key (\<lambda>d. d @ ''/'') dirs ! i"
proof -
  have eq: "map patient_dir (sort fs) = sort_key (\<lambda>d. d @ ''/'') dirs"
    using assms(1-3) by (rule sorted_dirs)
  then have "length (sort fs) = length dirs" by (metis length_map length_sort)
  then have "i < length (sort fs)" using assms(4) by simp
  then have "patient_dir (sort fs ! i) = map patient_dir (sort fs) ! i" by simp
  then show ?thesis using eq by simp
qed

lemma ok_hyps:
  "distinct ok_dirs \<and> same_depth 3 ok_dirs \<and> one_file_per_patient ok_dirs ok_t1
   \<and> one_file_per_patient ok_dirs ok_t2 \<and> one_file_per_patient ok_dirs ok_t1ce
   \<and> one_file_per_patient ok_dirs ok_flair \<and> one_file_per_patient ok_dirs ok_seg
   \<and> (1::nat) < length ok_dirs"
  by (simp add: ok_dirs_def same_depth_def one_file_per_patient_def patient_dir_def
      ok_t1_def ok_t2_def ok_t1ce_def ok_flair_def ok_seg_def)

lemma ok_database:
  "database ok_t1 ok_t2 ok_t1ce ok_flair ok_seg =
     Inr [(''T1'', [''data/mri/HGG/A/A_t1.nii.gz'', ''data/mri/LGG/B/B_t1.nii.gz'']),
          (''T2'', [''data/mri/HGG/A/A_t2.nii.gz'', ''data/mri/LGG/B/B_t2.nii.gz'']),
          (''T1ce'', [''data/mri/HGG/A/A_t1ce.nii.gz'', ''data/mri/LGG/B/B_t1ce.nii.gz'']),
          (''FLAIR'', [''data/mri/HGG/A/A_flair.nii.gz'', ''data/mri/LGG/B/B_flair.nii.gz'']),
          (''Seg'', [''data/mri/HGG/A/A_seg.nii.gz'', ''data/mri/LGG/B/B_seg.nii.gz''])]"
  by (simp add: database_def pd_DataFrame_def ok_t1_def ok_t2_def ok_t1ce_def ok_flair_def ok_seg_def)

section \<open>Properties of data preparation\<close>















section \<open>Properties of the label encoding and the confusion matrix\<close>











section \<open>Claims about \<open>load_img_norm\<close>\<close>

text \<open>
  C1 (as amended). For every image path and threshold, \<open>load_img_norm\<close> as the notebook
  defines it loads no volume and computes no statistics: the outcome of a call is the same
  for every path, every threshold and every content of the image files, and depends only
  on the global names of the session.
\<close>

theorem load_img_norm_ignores_image:
  assumes "globals w = globals w'"
  shows "fst (load_img_norm w image_dir threshold) = fst (load_img_norm w' image_dir' threshold')"
  using assms by (simp add: load_img_norm_eq split: option.splits)

theorem load_img_norm_ignores_image_witness:
  "globals w0 = globals w1
   \<and> files w0 path0 \<noteq> files w1 path0
   \<and> fst (load_img_norm w0 path0 0) = fst (load_img_norm w1 ''data/mri/LGG/p2/p2_t2.nii.gz'' 5)"
proof -
  have g: "globals w0 = globals w1" by (simp add: w0_def w1_def)
  have f: "files w0 path0 \<noteq> files w1 path0" by (simp add: w0_def w1_def img0_def)
  show ?thesis
    using g f load_img_norm_ignores_image [OF g, of path0 0 "''data/mri/LGG/p2/p2_t2.nii.gz''" 5]
    by simp
qed

text \<open>
  C1 as stated fails: on the volume \<open>[0, 1, 3]\<close> with threshold 0 the claim demands the pair
  holding \<open>[-2, -1, 1]\<close>; the call raises \<open>NameError\<close>.
\<close>

theorem load_img_norm_not_normalising:
  "load_img_norm_asked w0 path0 0 =
     Inr (PImage (img0\<lparr>img_voxels := [-2, -1, 1]\<rparr>),
          PArray \<lparr>arr_shape = [1, 1, 3], arr_data = [-2, -1, 1]\<rparr>)
   \<and> fst (load_img_norm w0 path0 0) = Inl (NameError ''normalized_sitk'')"
  using asked0 stub_raises [OF shipped_w0] by simp

text \<open>
  C2 (as amended). In the formula the notebook documents, the division is by zero (or the
  mean is over no voxel) exactly when the voxels strictly above the threshold are none or
  all of one intensity; with at least two distinct intensities above the threshold
  \<open>\<sigma>_I\<close> is nonzero and every voxel gets a value. \<open>load_img_norm\<close> as shipped performs no
  division: in a session of the shipped notebook no call ends in a division by zero.
\<close>

theorem division_by_zero_iff_constant:
  "(I_z threshold vs = Inl ZeroDivisionError \<longleftrightarrow> length (remdups (above threshold vs)) \<le> 1)
   \<and> (2 \<le> length (remdups (above threshold vs)) \<longrightarrow>
        (\<exists>zs. I_z threshold vs = Inr zs \<and> length zs = length vs))
   \<and> (shipped w \<longrightarrow> fst (load_img_norm w image_dir threshold) \<noteq> Inl ZeroDivisionError)"
proof (intro conjI impI)
  show "I_z threshold vs = Inl ZeroDivisionError \<longleftrightarrow> length (remdups (above threshold vs)) \<le> 1"
    by (rule I_z_fails_iff)
next
  assume "2 \<le> length (remdups (above threshold vs))"
  then have "I_z threshold vs \<noteq> Inl ZeroDivisionError" by (simp add: I_z_fails_iff)
  then show "\<exists>zs. I_z threshold vs = Inr zs \<and> length zs = length vs"
    using I_z_cases [of threshold vs] by simp
next
  assume "shipped w"
  then show "fst (load_img_norm w image_dir threshold) \<noteq> Inl ZeroDivisionError"
    by (simp add: stub_raises)
qed

theorem division_by_zero_iff_constant_witness:
  "I_z 0 [5, 5] = Inl ZeroDivisionError
   \<and> 2 \<le> length (remdups (above 0 [0, 1, 3]))
   \<and> (\<exists>zs. I_z 0 [0, 1, 3] = Inr zs \<and> length zs = 3)
   \<and> shipped w0
   \<and> fst (load_img_norm w0 path0 0) \<noteq> Inl ZeroDivisionError"
  using division_by_zero_iff_constant [of 0 "[5, 5]" w0 path0]
    division_by_zero_iff_constant [of 0 "[0, 1, 3]" w0 path0] shipped_w0
  by (auto simp: above_def numeral_3_eq_3)

text \<open>
  C2 as stated fails: the file of session \<open>w1\<close> holds two distinct intensities above the
  threshold 0, and the call does not return a normalised volume.
\<close>

theorem two_values_not_normalised:
  "files w1 path0 = Some (img0\<lparr>img_voxels := [4, 4, 9]\<rparr>)
   \<and> 2 \<le> length (remdups (above 0 [4, 4, 9]))
   \<and> isl (fst (load_img_norm w1 path0 0))"
  using stub_raises [OF shipped_w1, of path0 0] by (simp add: w1_def above_def)

text \<open>
  C3 (as amended). In the formula the notebook documents, whenever the normalisation is
  defined (nonzero \<open>\<sigma>_I\<close> over the voxels strictly above the threshold), the normalised
  values of exactly those voxels have mean 0 and standard deviation 1. \<open>load_img_norm\<close> as
  shipped returns no such values: in a session of the shipped notebook no call returns an
  array standardised in this way.
\<close>

theorem documented_formula_standardises:
  "(I_z threshold vs = Inr zs \<longrightarrow>
      mu_I (selected threshold vs zs) = Some 0 \<and> sigma_I (selected threshold vs zs) = Some 1)
   \<and> (shipped w \<longrightarrow>
        \<not> returns_standardised (fst (load_img_norm w image_dir threshold)) threshold vs)"
proof (intro conjI impI)
  assume "I_z threshold vs = Inr zs"
  then show "mu_I (selected threshold vs zs) = Some 0" by (simp add: I_z_standardises)
next
  assume "I_z threshold vs = Inr zs"
  then show "sigma_I (selected threshold vs zs) = Some 1" by (simp add: I_z_standardises)
next
  assume "shipped w"
  then show "\<not> returns_standardised (fst (load_img_norm w image_dir threshold)) threshold vs"
    by (simp add: stub_raises returns_standardised_def)
qed

theorem documented_formula_standardises_witness:
  "I_z 0 [0, 1, 3] = Inr [-2, -1, 1]
   \<and> selected 0 [0, 1, 3] [-2, -1, 1] = [-1, 1]
   \<and> mu_I (selected 0 [0, 1, 3] [-2, -1, 1]) = Some 0
   \<and> sigma_I (selected 0 [0, 1, 3] [-2, -1, 1]) = Some 1
   \<and> shipped w0
   \<and> \<not> returns_standardised (fst (load_img_norm w0 path0 0)) 0 [0, 1, 3]"
  using documented_formula_standardises [of 0 "[0, 1, 3]" "[-2, -1, 1]" w0 path0] I_z0 shipped_w0
  by (simp add: selected_def)

text \<open>
  C3 as stated fails: the volume \<open>[0, 1, 3]\<close> has \<open>\<sigma>_I = 1\<close> over its voxels above 0, and
  the call returns no array whose values at these voxels have mean 0 and deviation 1.
\<close>

theorem stub_not_standardised:
  "files w0 path0 = Some img0
   \<and> sigma_I (above 0 (img_voxels img0)) = Some 1
   \<and> \<not> returns_standardised (fst (load_img_norm w0 path0 0)) 0 (img_voxels img0)"
  using stub_raises [OF shipped_w0, of path0 0]
  by (simp add: returns_standardised_def w0_def img0_def above_def sigma_I_def mu_I_def)

text \<open>
  C10 (as amended). \<open>load_img_norm\<close> as the notebook defines it neither writes nor reads
  the image file: the files on disk, and the whole session state, are after the call what
  they were before it, and the outcome of the call is the same whatever the files hold. In
  a session of the shipped notebook no call returns a SimpleITK object, so none that
  carries the spatial information of an image. In a session where both names of the
  \<open>return\<close> have been bound, the call returns the two bound objects as they are: nothing is
  copied from the image in the file.
\<close>

theorem load_img_norm_frame:
  "snd (load_img_norm w image_dir threshold) = w
   \<and> fst (load_img_norm (w\<lparr>files := fs\<rparr>) image_dir threshold)
       = fst (load_img_norm w image_dir threshold)
   \<and> (shipped w \<longrightarrow> \<not> returns_image_like (fst (load_img_norm w image_dir threshold)) img)
   \<and> (globals w ''normalized_sitk'' = Some a \<and> globals w ''normalized_np'' = Some b \<longrightarrow>
        fst (load_img_norm w image_dir threshold) = Inr (a, b))"
proof (intro conjI impI)
  show "snd (load_img_norm w image_dir threshold) = w"
    by (simp add: load_img_norm_eq)
next
  show "fst (load_img_norm (w\<lparr>files := fs\<rparr>) image_dir threshold)
        = fst (load_img_norm w image_dir threshold)"
    by (simp add: load_img_norm_eq split: option.splits)
next
  assume "shipped w"
  then show "\<not> returns_image_like (fst (load_img_norm w image_dir threshold)) img"
    by (simp add: stub_raises returns_image_like_def)
next
  assume "globals w ''normalized_sitk'' = Some a \<and> globals w ''normalized_np'' = Some b"
  then show "fst (load_img_norm w image_dir threshold) = Inr (a, b)"
    by (simp add: load_img_norm_eq)
qed

theorem load_img_norm_frame_witness:
  "snd (load_img_norm w0 path0 0) = w0
   \<and> files (snd (load_img_norm w0 path0 0)) path0 = Some img0
   \<and> fst (load_img_norm (w0\<lparr>files := Map.empty\<rparr>) path0 0) = fst (load_img_norm w0 path0 0)
   \<and> shipped w0
   \<and> \<not> returns_image_like (fst (load_img_norm w0 path0 0)) img0
   \<and> files w2 path0 = Some img0
   \<and> fst (load_img_norm w2 path0 0)
       = Inr (PImage img2, PArray \<lparr>arr_shape = [1, 1, 3], arr_data = [7, 8, 9]\<rparr>)
   \<and> \<not> same_information img2 img0"
proof -
  note t0 = load_img_norm_frame [of w0 path0 0 Map.empty img0]
  note t2 = load_img_norm_frame
    [of w2 path0 0 _ _ "PImage img2" "PArray \<lparr>arr_shape = [1, 1, 3], arr_data = [7, 8, 9]\<rparr>"]
  have g2: "globals w2 ''normalized_sitk'' = Some (PImage img2)
            \<and> globals w2 ''normalized_np'' = Some (PArray \<lparr>arr_shape = [1, 1, 3], arr_data = [7, 8, 9]\<rparr>)"
    by (simp add: w2_def)
  have f0: "files w0 path0 = Some img0" by (simp add: w0_def)
  have f2: "files w2 path0 = Some img0" by (simp add: w2_def)
  have ns: "\<not> same_information img2 img0" by (simp add: same_information_def img2_def img0_def)
  from t0 have s0: "snd (load_img_norm w0 path0 0) = w0" by blast
  from t0 have i0: "fst (load_img_norm (w0\<lparr>files := Map.empty\<rparr>) path0 0) = fst (load_img_norm w0 path0 0)"
    by blast
  from t0 shipped_w0 have n0: "\<not> returns_image_like (fst (load_img_norm w0 path0 0)) img0" by blast
  from t2 g2 have r2: "fst (load_img_norm w2 path0 0)
       = Inr (PImage img2, PArray \<lparr>arr_shape = [1, 1, 3], arr_data = [7, 8, 9]\<rparr>)" by blast
  show ?thesis using s0 i0 n0 r2 f0 f2 ns shipped_w0 by simp
qed

text \<open>
  C10 as stated fails in its second half: the call returns no SimpleITK object, so none
  that carries the information of the image in the file.
\<close>

theorem stub_returns_no_image:
  "files w0 path0 = Some img0
   \<and> returns_image_like (load_img_norm_asked w0 path0 0) img0
   \<and> \<not> returns_image_like (fst (load_img_norm w0 path0 0)) img0"
  using stub_raises [OF shipped_w0, of path0 0] asked0
  by (simp add: returns_image_like_def same_information_def w0_def)

text \<open>
  C6. As shipped, the body of \<open>load_img_norm\<close> is empty and its \<open>return\<close> reads two names
  that no cell binds: in a session of the shipped notebook every call, whatever the path
  and the threshold, raises \<open>NameError\<close> at \<open>normalized_sitk\<close> and returns no value.
\<close>

theorem load_img_norm_stub_fails:
  assumes "shipped w"
  shows "fst (load_img_norm w image_dir threshold) = Inl (NameError ''normalized_sitk'')
       \<and> (\<forall>r. fst (load_img_norm w image_dir threshold) \<noteq> Inr r)"
  using assms by (simp add: load_img_norm_def load_name_param_free shipped_unbound)

theorem load_img_norm_stub_fails_witness:
  "shipped w0
   \<and> fst (load_img_norm w0 path0 0) = Inl (NameError ''normalized_sitk'')
   \<and> (\<forall>r. fst (load_img_norm w0 path0 0) \<noteq> Inr r)"
  using load_img_norm_stub_fails [OF shipped_w0, of path0 0] shipped_w0 by simp

section \<open>Claims about the tables and the classifier\<close>







text \<open>
  C8. Building \<open>database\<close> from the five sorted glob lists succeeds exactly when the five
  lists have one length, and raises \<open>ValueError\<close> otherwise. When it succeeds, row \<open>i\<close> holds
  the \<open>i\<close>-th file of each modality in sorted path order. If every patient directory
  contributes exactly one file per modality, the five files of a row lie in one patient
  directory; without that assumption they need not: in the last conjunct patient A has no
  T2 file and patient B has two, the lengths agree, and row 0 pairs A's T1 with B's T2.
\<close>

theorem database_rows_by_sorted_position:
  "((\<exists>df. database a b c d e = Inr df) \<longleftrightarrow> same_lengths a b c d e)
   \<and> (\<not> same_lengths a b c d e \<longrightarrow>
        database a b c d e = Inl (ValueError ''All arrays must be of the same length''))
   \<and> (database a b c d e = Inr df \<and> i < length a \<longrightarrow>
        at_df df i ''T1'' = Inr (sort a ! i) \<and> at_df df i ''T2'' = Inr (sort b ! i)
        \<and> at_df df i ''T1ce'' = Inr (sort c ! i) \<and> at_df df i ''FLAIR'' = Inr (sort d ! i)
        \<and> at_df df i ''Seg'' = Inr (sort e ! i))
   \<and> (distinct dirs \<and> same_depth k dirs \<and> one_file_per_patient dirs a
        \<and> one_file_per_patient dirs b \<and> one_file_per_patient dirs c
        \<and> one_file_per_patient dirs d \<and> one_file_per_patient dirs e \<and> j < length dirs \<longrightarrow>
        patient_dir (sort a ! j) = sort_key (\<lambda>p. p @ ''/'') dirs ! j
        \<and> patient_dir (sort b ! j) = patient_dir (sort a ! j)
        \<and> patient_dir (sort c ! j) = patient_dir (sort a ! j)
        \<and> patient_dir (sort d ! j) = patient_dir (sort a ! j)
        \<and> patient_dir (sort e ! j) = patient_dir (sort a ! j))
   \<and> (same_lengths ok_t1 mixed_t2 ok_t1ce ok_flair ok_seg
        \<and> patient_dir (sort ok_t1 ! 0) \<noteq> patient_dir (sort mixed_t2 ! 0))"
proof (intro conjI impI)
  show "(\<exists>df. database a b c d e = Inr df) \<longleftrightarrow> same_lengths a b c d e"
    unfolding same_lengths_def by (rule database_ok_iff)
next
  assume "\<not> same_lengths a b c d e"
  then show "database a b c d e = Inl (ValueError ''All arrays must be of the same length'')"
    by (auto simp: same_lengths_def database_def pd_DataFrame_def)
next
  assume h: "database a b c d e = Inr df \<and> i < length a"
  then have r: "at_df df i ''T1'' = Inr (sort a ! i) \<and> at_df df i ''T2'' = Inr (sort b ! i)
       \<and> at_df df i ''T1ce'' = Inr (sort c ! i) \<and> at_df df i ''FLAIR'' = Inr (sort d ! i)
       \<and> at_df df i ''Seg'' = Inr (sort e ! i)"
    using database_rows [of a b c d e df i] by blast
  from r show "at_df df i ''T1'' = Inr (sort a ! i)" by blast
  from r show "at_df df i ''T2'' = Inr (sort b ! i)" by blast
  from r show "at_df df i ''T1ce'' = Inr (sort c ! i)" by blast
  from r show "at_df df i ''FLAIR'' = Inr (sort d ! i)" by blast
  from r show "at_df df i ''Seg'' = Inr (sort e ! i)" by blast
next
  assume h: "distinct dirs \<and> same_depth k dirs \<and> one_file_per_patient dirs a
        \<and> one_file_per_patient dirs b \<and> one_file_per_patient dirs c
        \<and> one_file_per_patient dirs d \<and> one_file_per_patient dirs e \<and> j < length dirs"
  have R: "patient_dir (sort fs ! j) = sort_key (\<lambda>p. p @ ''/'') dirs ! j"
    if "one_file_per_patient dirs fs" for fs
    using h that row_one_patient [of dirs k fs j] by blast
  have ra: "patient_dir (sort a ! j) = sort_key (\<lambda>p. p @ ''/'') dirs ! j" using h by (intro R) blast
  have rb: "patient_dir (sort b ! j) = sort_key (\<lambda>p. p @ ''/'') dirs ! j" using h by (intro R) blast
  have rc: "patient_dir (sort c ! j) = sort_key (\<lambda>p. p @ ''/'') dirs ! j" using h by (intro R) blast
  have rd: "patient_dir (sort d ! j) = sort_key (\<lambda>p. p @ ''/'') dirs ! j" using h by (intro R) blast
  have re: "patient_dir (sort e ! j) = sort_key (\<lambda>p. p @ ''/'') dirs ! j" using h by (intro R) blast
  show "patient_dir (sort a ! j) = sort_key (\<lambda>p. p @ ''/'') dirs ! j" by (rule ra)
  show "patient_dir (sort b ! j) = patient_dir (sort a ! j)" by (simp only: ra rb)
  show "patient_dir (sort c ! j) = patient_dir (sort a ! j)" by (simp only: ra rc)
  show "patient_dir (sort d ! j) = patient_dir (sort a ! j)" by (simp only: ra rd)
  show "patient_dir (sort e ! j) = patient_dir (sort a ! j)" by (simp only: ra re)
next
  show "same_lengths ok_t1 mixed_t2 ok_t1ce ok_flair ok_seg"
    by (simp add: same_lengths_def ok_t1_def mixed_t2_def ok_t1ce_def ok_flair_def ok_seg_def)
next
  show "patient_dir (sort ok_t1 ! 0) \<noteq> patient_dir (sort mixed_t2 ! 0)"
    by (simp add: ok_t1_def mixed_t2_def patient_dir_def)
qed

theorem database_rows_by_sorted_position_witness:
  "same_lengths ok_t1 ok_t2 ok_t1ce ok_flair ok_seg
   \<and> at_df (projr (database ok_t1 ok_t2 ok_t1ce ok_flair ok_seg)) 1 ''T1'' = Inr ''data/mri/LGG/B/B_t1.nii.gz''
   \<and> at_df (projr (database ok_t1 ok_t2 ok_t1ce ok_flair ok_seg)) 1 ''Seg'' = Inr ''data/mri/LGG/B/B_seg.nii.gz''
   \<and> patient_dir (sort ok_t1 ! 1) = ''data/mri/LGG/B''
   \<and> patient_dir (sort ok_flair ! 1) = ''data/mri/LGG/B''
   \<and> \<not> same_lengths ok_t1 [] ok_t1ce ok_flair ok_seg
   \<and> database ok_t1 [] ok_t1ce ok_flair ok_seg = Inl (ValueError ''All arrays must be of the same length'')"
proof -
  note t = database_rows_by_sorted_position
    [of ok_t1 ok_t2 ok_t1ce ok_flair ok_seg "projr (database ok_t1 ok_t2 ok_t1ce ok_flair ok_seg)" 1 ok_dirs 3 1]
  note u = database_rows_by_sorted_position [of ok_t1 "[]" ok_t1ce ok_flair ok_seg]
  have sl: "same_lengths ok_t1 ok_t2 ok_t1ce ok_flair ok_seg"
    by (simp add: same_lengths_def ok_t1_def ok_t2_def ok_t1ce_def ok_flair_def ok_seg_def)
  have nsl: "\<not> same_lengths ok_t1 [] ok_t1ce ok_flair ok_seg"
    by (simp add: same_lengths_def ok_t1_def)
  have ex: "database ok_t1 ok_t2 ok_t1ce ok_flair ok_seg
            = Inr (projr (database ok_t1 ok_t2 ok_t1ce ok_flair ok_seg))"
    by (simp add: ok_database)
  have len: "(1::nat) < length ok_t1" by (simp add: ok_t1_def)
  have s1: "sort ok_t1 ! 1 = ''data/mri/LGG/B/B_t1.nii.gz''" by (simp add: ok_t1_def)
  have s5: "sort ok_seg ! 1 = ''data/mri/LGG/B/B_seg.nii.gz''" by (simp add: ok_seg_def)
  have k: "sort_key (\<lambda>p. p @ ''/'') ok_dirs ! 1 = ''data/mri/LGG/B''" by (simp add: ok_dirs_def)
  from t ex len have rows: "at_df (projr (database ok_t1 ok_t2 ok_t1ce ok_flair ok_seg)) 1 ''T1'' = Inr (sort ok_t1 ! 1)
     \<and> at_df (projr (database ok_t1 ok_t2 ok_t1ce ok_flair ok_seg)) 1 ''Seg'' = Inr (sort ok_seg ! 1)"
    by blast
  from t ok_hyps have al: "patient_dir (sort ok_t1 ! 1) = sort_key (\<lambda>p. p @ ''/'') ok_dirs ! 1
     \<and> patient_dir (sort ok_flair ! 1) = patient_dir (sort ok_t1 ! 1)"
    by blast
  from u nsl have err: "database ok_t1 [] ok_t1ce ok_flair ok_seg = Inl (ValueError ''All arrays must be of the same length'')"
    by blast
  show ?thesis using sl nsl rows al err by (simp only: s1 s5 k) simp
qed

end
